theory Spec2Isabelle
  imports Main "HOL-Library.Word"
begin

section \<open>Cursor paginator: data model\<close>

text \<open>
  The embedding follows \<^verbatim>\<open>paginator/paginator.go\<close> (type \<^verbatim>\<open>Paginator\<close>) and
  \<^verbatim>\<open>paginator/paginator_v1.go\<close> (type \<^verbatim>\<open>SqlPaginator\<close>). Go's \<^verbatim>\<open>int\<close> is taken at
  64 bits, as a signed reading of a \<open>64 word\<close>. A Go panic is the left summand of the
  result of every function that can panic.
\<close>

type_synonym go_int = "64 word"

datatype panic = NilDereference | IndexOutOfRange

datatype err =
    ErrNoRule | ErrInvalidLimit | ErrInvalidCursor | ErrInvalidOrder | ErrInvalidModel
  | ErrOther string

subsection \<open>Values of type \<^verbatim>\<open>interface{}\<close>\<close>

text \<open>
  A value of Go's empty interface is either the untyped \<^verbatim>\<open>nil\<close> or a value of some
  dynamic type. Of the dynamic type only its \<^verbatim>\<open>reflect.Kind\<close> matters to the code, and
  of the value only whether it is the nil value of its kind (\<open>None\<close>).
\<close>

datatype kind = Ptr | Map | Chan | Slice | Func | Array | Scalar

datatype 'a iface = NilIface | Typed kind "'a option"

fun isNil :: "'a iface \<Rightarrow> bool" where
  "isNil NilIface = True"
| "isNil (Typed k v) =
     (if k = Ptr \<or> k = Map \<or> k = Chan \<or> k = Slice then v = None else False)"

subsection \<open>Order, Rule, Cursor, Paginator\<close>

text \<open>
  \<^verbatim>\<open>Order\<close> is a string type in the source (\<^verbatim>\<open>rule.Order == ""\<close> tests for an unset
  order, and \<^verbatim>\<open>%s\<close> prints it).
\<close>

type_synonym Order = string

text \<open>
  Modelled from the spec: the declaration of \<^verbatim>\<open>Order\<close>, its two literals and its method
  \<^verbatim>\<open>flip\<close> are not in the two source files. The spec gives the enumeration
  \<open>{ASC, DESC}\<close> and says that \<open>flip()\<close> returns the opposite value.
\<close>

definition ASC :: Order where
  "ASC = ''ASC''"

definition DESC :: Order where
  "DESC = ''DESC''"

definition flip :: "Order \<Rightarrow> Order" where
  "flip ord = (if ord = ASC then DESC else ASC)"

record 'a CustomType =
  Meta :: "'a iface"
  Type :: string

record 'a Rule =
  Key :: string
  Order :: Order
  SQLRepr :: string
  SQLType :: "string option"
  NULLReplacement :: "'a iface"
  CustomType :: "'a CustomType option"

record Cursor =
  After :: "string option"
  Before :: "string option"

record 'a Paginator =
  cursor :: Cursor
  rules :: "'a Rule list"
  limit :: go_int
  order :: Order

text \<open>\<^verbatim>\<open>SqlPaginator\<close> embeds a \<^verbatim>\<open>Paginator\<close> and has no field of its own.\<close>

datatype 'a SqlPaginator = SqlPaginator (base: "'a Paginator")

text \<open>
  A \<^verbatim>\<open>*gorm.DB\<close> statement, as far as the paginator touches it: the row limit, the
  ORDER BY entries and the WHERE conditions with their arguments, each in the order in
  which they were added, and the \<^verbatim>\<open>Error\<close> field.
\<close>

record 'a DB =
  Limit_clause :: "go_int option"
  Order_clauses :: "string list"
  Where_clauses :: "(string \<times> 'a iface list) list"
  Error :: "err option"

text \<open>The destination: a pointer to a slice of rows, or to something that is not a slice.\<close>

datatype 'r dest = RowSlice "'r list" | NotSlice 'r

section \<open>Query builder\<close>

text \<open>\<^verbatim>\<open>strings.Join\<close>.\<close>

fun Join :: "string list \<Rightarrow> string \<Rightarrow> string" where
  "Join [] sep = []"
| "Join [x] sep = x"
| "Join (x # y # ys) sep = x @ sep @ Join (y # ys) sep"

definition isForward :: "'a Paginator \<Rightarrow> bool" where
  "isForward p = (After (cursor p) \<noteq> None)"

definition isBackward :: "'a Paginator \<Rightarrow> bool" where
  "isBackward p = (\<not> isForward p \<and> Before (cursor p) \<noteq> None)"

definition BuildOrderSQL :: "'a Paginator \<Rightarrow> string" where
  "BuildOrderSQL p =
     Join (map (\<lambda>rule.
                  let ord = Order rule;
                      ord = (if isBackward p then flip ord else ord)
                  in SQLRepr rule @ '' '' @ ord)
               (rules p))
          '', ''"

text \<open>
  The loop of \<^verbatim>\<open>BuildCursorSQLQuery\<close>: \<open>query\<close> is the prefix of equalities accumulated
  so far, the result is the slice \<^verbatim>\<open>queries\<close>.
\<close>

fun BuildCursorSQLQuery_loop :: "'a Paginator \<Rightarrow> 'a Rule list \<Rightarrow> string \<Rightarrow> string list" where
  "BuildCursorSQLQuery_loop p [] query = []"
| "BuildCursorSQLQuery_loop p (rule # rs) query =
     (let operator =
            (if (isForward p \<and> Order rule = ASC) \<or> (isBackward p \<and> Order rule = DESC)
             then ''>'' else ''<'')
      in (query @ SQLRepr rule @ '' '' @ operator @ '' ?'')
         # BuildCursorSQLQuery_loop p rs (query @ SQLRepr rule @ '' = ? AND ''))"

definition BuildCursorSQLQuery :: "'a Paginator \<Rightarrow> string" where
  "BuildCursorSQLQuery p = Join (BuildCursorSQLQuery_loop p (rules p) []) '' OR ''"

text \<open>
  \<^verbatim>\<open>for i := 1; i <= len(fields); i++ { args = append(args, fields[:i]...) }\<close>
  (the parameter \<^verbatim>\<open>fields\<close> is written \<open>flds\<close>).
\<close>

definition BuildCursorSQLQueryArgs :: "'a Paginator \<Rightarrow> 'a iface list \<Rightarrow> 'a iface list" where
  "BuildCursorSQLQueryArgs p flds =
     fold (\<lambda>i args. args @ take i flds) [1 ..< Suc (length flds)] []"

definition AppendPagingQuery :: "'a Paginator \<Rightarrow> 'a DB \<Rightarrow> 'a iface list \<Rightarrow> 'a DB" where
  "AppendPagingQuery p db flds =
     (let stmt = db;
          stmt = stmt\<lparr>Limit_clause := Some (limit p + 1)\<rparr>;
          stmt = stmt\<lparr>Order_clauses := Order_clauses stmt @ [BuildOrderSQL p]\<rparr>;
          stmt = (if length flds > 0
                  then stmt\<lparr>Where_clauses := Where_clauses stmt
                                @ [(BuildCursorSQLQuery p, BuildCursorSQLQueryArgs p flds)]\<rparr>
                  else stmt)
      in stmt)"

section \<open>External collaborators\<close>

text \<open>
  What the two files call and do not define, taken as parameters: the validation of an
  order and of a rule, the schema parser of \<^verbatim>\<open>internal/util\<close>, the cursor codec of
  package \<^verbatim>\<open>cursor\<close>, gorm's \<^verbatim>\<open>Find\<close>, and the \<^verbatim>\<open>%v\<close> verb of \<^verbatim>\<open>fmt\<close>.
  \<open>LookUpField\<close> gives the \<^verbatim>\<open>DBName\<close> of the field found, \<open>None\<close> for the nil
  pointer gorm returns when there is no such field.
\<close>

record Schema =
  Table :: string
  LookUpField :: "string \<Rightarrow> string option"

datatype 'a EncoderField = EncoderField string "'a iface"

datatype DecoderField = DecoderField string "string option"

record ('a, 'r) collaborators =
  order_validate :: "Order \<Rightarrow> err option"
  rule_validate :: "'a Rule \<Rightarrow> 'a DB \<Rightarrow> 'r dest \<Rightarrow> err option"
  ParseSchema :: "'a DB \<Rightarrow> 'r dest \<Rightarrow> err + Schema"
  Sprint_v :: "'a iface \<Rightarrow> string"
  Decode :: "DecoderField list \<Rightarrow> string \<Rightarrow> 'r dest \<Rightarrow> 'a iface list \<times> err option"
  Encode :: "'a EncoderField list \<Rightarrow> 'r \<Rightarrow> err + string"
  Find :: "'a DB \<Rightarrow> 'r dest \<Rightarrow> 'a DB \<times> 'r dest"

text \<open>
  Modelled from the spec: the helper \<^verbatim>\<open>reverse\<close> is not in the two source files. The
  spec says that the remaining rows are reversed back into the caller-facing order.
\<close>

definition reverse :: "'r list \<Rightarrow> 'r list" where
  "reverse elems = rev elems"

text \<open>\<^verbatim>\<open>reflect.Value.Index\<close>: panics out of range.\<close>

definition Index :: "'r list \<Rightarrow> int \<Rightarrow> panic + 'r" where
  "Index elems i =
     (if 0 \<le> i \<and> i < int (length elems) then Inr (elems ! nat i) else Inl IndexOutOfRange)"

section \<open>Orchestrator\<close>

fun validate_rules ::
  "('a, 'r) collaborators \<Rightarrow> 'a Rule list \<Rightarrow> 'a DB \<Rightarrow> 'r dest \<Rightarrow> err option" where
  "validate_rules env [] db dest = None"
| "validate_rules env (rule # rs) db dest =
     (case rule_validate env rule db dest of
        Some e \<Rightarrow> Some e
      | None \<Rightarrow> validate_rules env rs db dest)"

definition validate ::
  "('a, 'r) collaborators \<Rightarrow> 'a Paginator \<Rightarrow> 'a DB \<Rightarrow> 'r dest \<Rightarrow> err option" where
  "validate env p db dest =
     (if length (rules p) = 0 then Some ErrNoRule
      else if sint (limit p) \<le> 0 then Some ErrInvalidLimit
      else (case order_validate env (order p) of
              Some e \<Rightarrow> Some e
            | None \<Rightarrow> validate_rules env (rules p) db dest))"

definition parseSQLKey ::
  "('a, 'r) collaborators \<Rightarrow> 'a DB \<Rightarrow> 'r dest \<Rightarrow> string \<Rightarrow> panic + string" where
  "parseSQLKey env db dest key =
     (case ParseSchema env db dest of
        Inl e \<Rightarrow> Inl NilDereference
      | Inr schema \<Rightarrow>
          (case LookUpField schema key of
             None \<Rightarrow> Inl NilDereference
           | Some dbname \<Rightarrow> Inr dbname))"

text \<open>
  The part of the loop body of \<^verbatim>\<open>setup\<close> under \<^verbatim>\<open>if rule.SQLRepr == ""\<close>: it gives
  the new \<^verbatim>\<open>sqlTable\<close> and the rule with its \<^verbatim>\<open>SQLRepr\<close> set, the error of the schema
  parser, or a panic.
\<close>

definition setup_resolve ::
  "('a, 'r) collaborators \<Rightarrow> 'a DB \<Rightarrow> 'r dest \<Rightarrow> string \<Rightarrow> 'a Rule
     \<Rightarrow> panic + (err + string \<times> 'a Rule)" where
  "setup_resolve env db dest sqlTable rule =
     (if SQLRepr rule = []
      then (case (if sqlTable = []
                  then (case ParseSchema env db dest of
                          Inl e \<Rightarrow> Inl e
                        | Inr schema \<Rightarrow> Inr (Table schema))
                  else Inr sqlTable) of
              Inl e \<Rightarrow> Inr (Inl e)
            | Inr sqlTable' \<Rightarrow>
                (case parseSQLKey env db dest (Key rule) of
                   Inl pn \<Rightarrow> Inl pn
                 | Inr sqlKey \<Rightarrow>
                     Inr (Inr (sqlTable', rule\<lparr>SQLRepr := sqlTable' @ ''.'' @ sqlKey\<rparr>))))
      else Inr (Inr (sqlTable, rule)))"

text \<open>The rest of the loop body: NULL replacement, cast, default order.\<close>

definition setup_wrap :: "('a, 'r) collaborators \<Rightarrow> Order \<Rightarrow> 'a Rule \<Rightarrow> 'a Rule" where
  "setup_wrap env p_order rule =
     (let rule = (if NULLReplacement rule \<noteq> NilIface
                  then rule\<lparr>SQLRepr := ''COALESCE('' @ SQLRepr rule @ '', '' @ [CHR 0x27]
                                  @ Sprint_v env (NULLReplacement rule) @ [CHR 0x27] @ '')''\<rparr>
                  else rule);
          rule = (case SQLType rule of
                    Some t \<Rightarrow> rule\<lparr>SQLRepr := ''CAST( '' @ SQLRepr rule @ '' AS '' @ t @ '' )''\<rparr>
                  | None \<Rightarrow> rule);
          rule = (if Order rule = [] then rule\<lparr>Order := p_order\<rparr> else rule)
      in rule)"

text \<open>
  The loop of \<^verbatim>\<open>setup\<close> over the rules from the current one on. The rules are
  updated in place, so on an error the rules before the failing one stay resolved and
  the others stay as they were.
\<close>

fun setup_loop ::
  "('a, 'r) collaborators \<Rightarrow> 'a DB \<Rightarrow> 'r dest \<Rightarrow> Order \<Rightarrow> string \<Rightarrow> 'a Rule list
     \<Rightarrow> panic + 'a Rule list \<times> err option" where
  "setup_loop env db dest p_order sqlTable [] = Inr ([], None)"
| "setup_loop env db dest p_order sqlTable (rule # rs) =
     (case setup_resolve env db dest sqlTable rule of
        Inl pn \<Rightarrow> Inl pn
      | Inr (Inl e) \<Rightarrow> Inr (rule # rs, Some e)
      | Inr (Inr (sqlTable', rule')) \<Rightarrow>
          (case setup_loop env db dest p_order sqlTable' rs of
             Inl pn \<Rightarrow> Inl pn
           | Inr (rs', e) \<Rightarrow> Inr (setup_wrap env p_order rule' # rs', e)))"

text \<open>The method \<^verbatim>\<open>setup\<close> (the bare name is a keyword of Isabelle).\<close>

definition setup_paginator ::
  "('a, 'r) collaborators \<Rightarrow> 'a Paginator \<Rightarrow> 'a DB \<Rightarrow> 'r dest
     \<Rightarrow> panic + 'a Paginator \<times> err option" where
  "setup_paginator env p db dest =
     (case setup_loop env db dest (order p) [] (rules p) of
        Inl pn \<Rightarrow> Inl pn
      | Inr (rs, e) \<Rightarrow> Inr (p\<lparr>rules := rs\<rparr>, e))"

definition getEncoderFields :: "'a Paginator \<Rightarrow> 'a EncoderField list" where
  "getEncoderFields p =
     map (\<lambda>rule. EncoderField (Key rule)
                   (case CustomType rule of Some ct \<Rightarrow> Meta ct | None \<Rightarrow> NilIface))
         (rules p)"

definition getDecoderFields :: "'a Paginator \<Rightarrow> DecoderField list" where
  "getDecoderFields p =
     map (\<lambda>rule. DecoderField (Key rule)
                   (case CustomType rule of Some ct \<Rightarrow> Some (Type ct) | None \<Rightarrow> None))
         (rules p)"

text \<open>
  The loop \<^verbatim>\<open>for i := range result\<close> of \<^verbatim>\<open>DecodeCursor\<close>, from index \<open>i\<close> on:
  \<^verbatim>\<open>p.rules[i]\<close> panics when there are fewer rules than values.
\<close>

fun replace_null_values ::
  "'a Rule list \<Rightarrow> nat \<Rightarrow> 'a iface list \<Rightarrow> panic + 'a iface list" where
  "replace_null_values rs i [] = Inr []"
| "replace_null_values rs i (v # vs) =
     (if isNil v
      then (if i < length rs
            then (case replace_null_values rs (Suc i) vs of
                    Inl pn \<Rightarrow> Inl pn
                  | Inr vs' \<Rightarrow> Inr (NULLReplacement (rs ! i) # vs'))
            else Inl IndexOutOfRange)
      else (case replace_null_values rs (Suc i) vs of
              Inl pn \<Rightarrow> Inl pn
            | Inr vs' \<Rightarrow> Inr (v # vs')))"

definition DecodeCursor ::
  "('a, 'r) collaborators \<Rightarrow> 'a Paginator \<Rightarrow> 'r dest
     \<Rightarrow> panic + 'a iface list \<times> err option" where
  "DecodeCursor env p dest =
     (let (result, e) =
            (if isForward p
             then (let (result, e) =
                         Decode env (getDecoderFields p) (the (After (cursor p))) dest
                   in (result, if e \<noteq> None then Some ErrInvalidCursor else e))
             else if isBackward p
             then (let (result, e) =
                         Decode env (getDecoderFields p) (the (Before (cursor p))) dest
                   in (result, if e \<noteq> None then Some ErrInvalidCursor else e))
             else ([], None))
      in (case replace_null_values (rules p) 0 result of
            Inl pn \<Rightarrow> Inl pn
          | Inr result' \<Rightarrow> Inr (result', e)))"

definition EncodeCursor ::
  "('a, 'r) collaborators \<Rightarrow> 'a Paginator \<Rightarrow> 'r list \<Rightarrow> bool
     \<Rightarrow> panic + Cursor \<times> err option" where
  "EncodeCursor env p elems hasMore =
     (let encoder = Encode env (getEncoderFields p);
          result = \<lparr>After = None, Before = None\<rparr>;
          before_part = (\<lambda>result.
            if isForward p \<or> (hasMore \<and> isBackward p)
            then (case Index elems 0 of
                    Inl pn \<Rightarrow> Inl pn
                  | Inr row \<Rightarrow>
                      (case encoder row of
                         Inl e \<Rightarrow> Inr (\<lparr>After = None, Before = None\<rparr>, Some e)
                       | Inr c \<Rightarrow> Inr (result\<lparr>Before := Some c\<rparr>, None)))
            else Inr (result, None))
      in if isBackward p \<or> hasMore
         then (case Index elems (int (length elems) - 1) of
                 Inl pn \<Rightarrow> Inl pn
               | Inr row \<Rightarrow>
                   (case encoder row of
                      Inl e \<Rightarrow> Inr (\<lparr>After = None, Before = None\<rparr>, Some e)
                    | Inr c \<Rightarrow> before_part (result\<lparr>After := Some c\<rparr>)))
         else before_part result)"

record ('a, 'r) Paginated =
  out_paginator :: "'a Paginator"
  out_dest :: "'r dest"
  out_result :: "'a DB option"
  out_cursor :: Cursor
  out_err :: "err option"

text \<open>
  \<^verbatim>\<open>Paginate\<close> returns \<^verbatim>\<open>(result, c, err)\<close> and leaves the paginator and the
  destination updated; \<open>out_result = None\<close> is the nil \<^verbatim>\<open>result\<close> of a return before
  the query is built.
\<close>

definition Paginate ::
  "('a, 'r) collaborators \<Rightarrow> 'a Paginator \<Rightarrow> 'a DB \<Rightarrow> 'r dest
     \<Rightarrow> panic + ('a, 'r) Paginated" where
  "Paginate env p db dest =
     (case validate env p db dest of
        Some e \<Rightarrow>
          Inr \<lparr>out_paginator = p, out_dest = dest, out_result = None,
               out_cursor = \<lparr>After = None, Before = None\<rparr>, out_err = Some e\<rparr>
      | None \<Rightarrow>
     (case setup_paginator env p db dest of
        Inl pn \<Rightarrow> Inl pn
      | Inr (p, Some e) \<Rightarrow>
          Inr \<lparr>out_paginator = p, out_dest = dest, out_result = None,
               out_cursor = \<lparr>After = None, Before = None\<rparr>, out_err = Some e\<rparr>
      | Inr (p, None) \<Rightarrow>
     (case DecodeCursor env p dest of
        Inl pn \<Rightarrow> Inl pn
      | Inr (flds, Some e) \<Rightarrow>
          Inr \<lparr>out_paginator = p, out_dest = dest, out_result = None,
               out_cursor = \<lparr>After = None, Before = None\<rparr>, out_err = Some e\<rparr>
      | Inr (flds, None) \<Rightarrow>
     (let (result, dest) = Find env (AppendPagingQuery p db flds) dest
      in if Error result \<noteq> None
         then Inr \<lparr>out_paginator = p, out_dest = dest, out_result = Some result,
                   out_cursor = \<lparr>After = None, Before = None\<rparr>, out_err = None\<rparr>
         else (case dest of
                 RowSlice elems \<Rightarrow>
                   if length elems > 0
                   then (let hasMore = (int (length elems) > sint (limit p));
                             elems = (if hasMore then take (length elems - 1) elems else elems);
                             elems = (if isBackward p then reverse elems else elems)
                         in (case EncodeCursor env p elems hasMore of
                               Inl pn \<Rightarrow> Inl pn
                             | Inr (c, e) \<Rightarrow>
                                 Inr \<lparr>out_paginator = p, out_dest = RowSlice elems,
                                      out_result = Some result, out_cursor = c, out_err = e\<rparr>))
                   else Inr \<lparr>out_paginator = p, out_dest = dest, out_result = Some result,
                             out_cursor = \<lparr>After = None, Before = None\<rparr>, out_err = None\<rparr>
               | NotSlice x \<Rightarrow>
                   Inr \<lparr>out_paginator = p, out_dest = dest, out_result = Some result,
                        out_cursor = \<lparr>After = None, Before = None\<rparr>, out_err = None\<rparr>)))))"

text \<open>\<^verbatim>\<open>GetCursor\<close> returns \<^verbatim>\<open>(c, err)\<close> and leaves the destination updated.\<close>

definition GetCursor ::
  "('a, 'r) collaborators \<Rightarrow> 'a Paginator \<Rightarrow> 'r dest
     \<Rightarrow> panic + 'r dest \<times> Cursor \<times> err option" where
  "GetCursor env p dest =
     (case dest of
        RowSlice elems \<Rightarrow>
          if length elems > 0
          then (let hasMore = (int (length elems) > sint (limit p));
                    elems = (if hasMore then take (length elems - 1) elems else elems);
                    elems = (if isBackward p then reverse elems else elems)
                in (case EncodeCursor env p elems hasMore of
                      Inl pn \<Rightarrow> Inl pn
                    | Inr (c, e) \<Rightarrow> Inr (RowSlice elems, c, e)))
          else Inr (dest, \<lparr>After = None, Before = None\<rparr>, None)
      | NotSlice x \<Rightarrow> Inr (dest, \<lparr>After = None, Before = None\<rparr>, None))"

section \<open>SqlPaginator\<close>

text \<open>
  The methods that \<^verbatim>\<open>paginator_v1.go\<close> defines again on \<^verbatim>\<open>SqlPaginator\<close>. The fields
  \<^verbatim>\<open>p.cursor\<close>, \<^verbatim>\<open>p.rules\<close> and \<^verbatim>\<open>p.limit\<close> are those of the embedded paginator.
\<close>

definition Sql_isForward :: "'a SqlPaginator \<Rightarrow> bool" where
  "Sql_isForward p = (After (cursor (base p)) \<noteq> None)"

definition Sql_isBackward :: "'a SqlPaginator \<Rightarrow> bool" where
  "Sql_isBackward p = (\<not> Sql_isForward p \<and> Before (cursor (base p)) \<noteq> None)"

definition Sql_BuildOrderSQL :: "'a SqlPaginator \<Rightarrow> string" where
  "Sql_BuildOrderSQL p =
     Join (map (\<lambda>rule.
                  let ord = Order rule;
                      ord = (if Sql_isBackward p then flip ord else ord)
                  in SQLRepr rule @ '' '' @ ord)
               (rules (base p)))
          '', ''"

fun Sql_BuildCursorSQLQuery_loop ::
  "'a SqlPaginator \<Rightarrow> 'a Rule list \<Rightarrow> string \<Rightarrow> string list" where
  "Sql_BuildCursorSQLQuery_loop p [] query = []"
| "Sql_BuildCursorSQLQuery_loop p (rule # rs) query =
     (let operator =
            (if (Sql_isForward p \<and> Order rule = ASC) \<or> (Sql_isBackward p \<and> Order rule = DESC)
             then ''>'' else ''<'')
      in (query @ SQLRepr rule @ '' '' @ operator @ '' ?'')
         # Sql_BuildCursorSQLQuery_loop p rs (query @ SQLRepr rule @ '' = ? AND ''))"

definition Sql_BuildCursorSQLQuery :: "'a SqlPaginator \<Rightarrow> string" where
  "Sql_BuildCursorSQLQuery p =
     Join (Sql_BuildCursorSQLQuery_loop p (rules (base p)) []) '' OR ''"

definition Sql_BuildCursorSQLQueryArgs ::
  "'a SqlPaginator \<Rightarrow> 'a iface list \<Rightarrow> 'a iface list" where
  "Sql_BuildCursorSQLQueryArgs p flds =
     fold (\<lambda>i args. args @ take i flds) [1 ..< Suc (length flds)] []"

definition Sql_getEncoderFields :: "'a SqlPaginator \<Rightarrow> 'a EncoderField list" where
  "Sql_getEncoderFields p =
     map (\<lambda>rule. EncoderField (Key rule)
                   (case CustomType rule of Some ct \<Rightarrow> Meta ct | None \<Rightarrow> NilIface))
         (rules (base p))"

definition Sql_getDecoderFields :: "'a SqlPaginator \<Rightarrow> DecoderField list" where
  "Sql_getDecoderFields p =
     map (\<lambda>rule. DecoderField (Key rule)
                   (case CustomType rule of Some ct \<Rightarrow> Some (Type ct) | None \<Rightarrow> None))
         (rules (base p))"

definition Sql_DecodeCursor ::
  "('a, 'r) collaborators \<Rightarrow> 'a SqlPaginator \<Rightarrow> 'r dest
     \<Rightarrow> panic + 'a iface list \<times> err option" where
  "Sql_DecodeCursor env p dest =
     (let (result, e) =
            (if Sql_isForward p
             then (let (result, e) =
                         Decode env (Sql_getDecoderFields p) (the (After (cursor (base p)))) dest
                   in (result, if e \<noteq> None then Some ErrInvalidCursor else e))
             else if Sql_isBackward p
             then (let (result, e) =
                         Decode env (Sql_getDecoderFields p) (the (Before (cursor (base p)))) dest
                   in (result, if e \<noteq> None then Some ErrInvalidCursor else e))
             else ([], None))
      in (case replace_null_values (rules (base p)) 0 result of
            Inl pn \<Rightarrow> Inl pn
          | Inr result' \<Rightarrow> Inr (result', e)))"

definition Sql_EncodeCursor ::
  "('a, 'r) collaborators \<Rightarrow> 'a SqlPaginator \<Rightarrow> 'r list \<Rightarrow> bool
     \<Rightarrow> panic + Cursor \<times> err option" where
  "Sql_EncodeCursor env p elems hasMore =
     (let encoder = Encode env (Sql_getEncoderFields p);
          result = \<lparr>After = None, Before = None\<rparr>;
          before_part = (\<lambda>result.
            if Sql_isForward p \<or> (hasMore \<and> Sql_isBackward p)
            then (case Index elems 0 of
                    Inl pn \<Rightarrow> Inl pn
                  | Inr row \<Rightarrow>
                      (case encoder row of
                         Inl e \<Rightarrow> Inr (\<lparr>After = None, Before = None\<rparr>, Some e)
                       | Inr c \<Rightarrow> Inr (result\<lparr>Before := Some c\<rparr>, None)))
            else Inr (result, None))
      in if Sql_isBackward p \<or> hasMore
         then (case Index elems (int (length elems) - 1) of
                 Inl pn \<Rightarrow> Inl pn
               | Inr row \<Rightarrow>
                   (case encoder row of
                      Inl e \<Rightarrow> Inr (\<lparr>After = None, Before = None\<rparr>, Some e)
                    | Inr c \<Rightarrow> before_part (result\<lparr>After := Some c\<rparr>)))
         else before_part result)"

section \<open>The specification's query builder\<close>

text \<open>
  The builder as the specification words it, to be compared with the code: a traversal
  direction, one comparator per rule, clause \<open>i\<close> as the equalities on the rules before
  \<open>i\<close> followed by the comparison on rule \<open>i\<close>, the predicate as their disjunction,
  the arguments of clause \<open>i\<close> as the values up to and including \<open>i\<close>, and the order
  list as one pair of expression and direction per rule.
\<close>

datatype direction = Forward | Backward | NoCursor

definition direction_of :: "'a Paginator \<Rightarrow> direction" where
  "direction_of p =
     (if After (cursor p) \<noteq> None then Forward
      else if Before (cursor p) \<noteq> None then Backward
      else NoCursor)"

definition spec_comparator :: "direction \<Rightarrow> 'a Rule \<Rightarrow> string" where
  "spec_comparator d rule =
     (if (d = Forward \<and> Order rule = ASC) \<or> (d = Backward \<and> Order rule = DESC)
      then ''>'' else ''<'')"

definition spec_clause :: "direction \<Rightarrow> 'a Rule list \<Rightarrow> nat \<Rightarrow> string" where
  "spec_clause d rs i =
     concat (map (\<lambda>j. SQLRepr (rs ! j) @ '' = ? AND '') [0 ..< i])
     @ SQLRepr (rs ! i) @ '' '' @ spec_comparator d (rs ! i) @ '' ?''"

definition spec_predicate :: "direction \<Rightarrow> 'a Rule list \<Rightarrow> string" where
  "spec_predicate d rs = Join (map (spec_clause d rs) [0 ..< length rs]) '' OR ''"

definition spec_args :: "'v list \<Rightarrow> 'v list" where
  "spec_args vs = concat (map (\<lambda>i. take (Suc i) vs) [0 ..< length vs])"

text \<open>
  The page the specification describes: the fetched rows without the last one when
  there are more than \<open>limit\<close> of them, reversed when the traversal is backward.
\<close>

definition spec_trim :: "int \<Rightarrow> 'r list \<Rightarrow> 'r list" where
  "spec_trim lim rows = (if int (length rows) > lim then butlast rows else rows)"

definition spec_page :: "direction \<Rightarrow> int \<Rightarrow> 'r list \<Rightarrow> 'r list" where
  "spec_page d lim rows =
     (if d = Backward then rev (spec_trim lim rows) else spec_trim lim rows)"

text \<open>
  The wrapping the specification describes: the NULL replacement around the column
  expression, then the cast around that.
\<close>

definition spec_coalesce :: "('a iface \<Rightarrow> string) \<Rightarrow> 'a iface \<Rightarrow> string \<Rightarrow> string" where
  "spec_coalesce fmt_v repl e =
     (if repl = NilIface then e
      else ''COALESCE('' @ e @ '', '' @ [CHR 0x27] @ fmt_v repl @ [CHR 0x27] @ '')'')"

definition spec_cast :: "string option \<Rightarrow> string \<Rightarrow> string" where
  "spec_cast ty e = (case ty of None \<Rightarrow> e | Some t \<Rightarrow> ''CAST( '' @ e @ '' AS '' @ t @ '' )'')"

definition spec_buildOrder :: "direction \<Rightarrow> 'a Rule list \<Rightarrow> (string \<times> Order) list" where
  "spec_buildOrder d rs =
     map (\<lambda>rule. (SQLRepr rule, if d = Backward then flip (Order rule) else Order rule)) rs"

section \<open>Example configurations\<close>

text \<open>
  A table \<open>orders\<close> with the fields \<open>CreatedAt\<close> and \<open>ID\<close>, rows and values written
  as strings, and collaborators that behave as the specification describes them: the
  codec fails on the token \<open>bad\<close> and decodes the token \<open>null\<close> to absent values, the
  query engine returns three rows.
\<close>

definition ex_schema :: Schema where
  "ex_schema =
     \<lparr>Table = ''orders'',
      LookUpField = (\<lambda>k. if k = ''ID'' then Some ''id''
                          else if k = ''CreatedAt'' then Some ''created_at'' else None)\<rparr>"

definition ex_env :: "(string, string) collaborators" where
  "ex_env =
     \<lparr>order_validate = (\<lambda>ord. if ord = ASC \<or> ord = DESC then None else Some ErrInvalidOrder),
      rule_validate = (\<lambda>rule db dest. if Key rule = [] then Some ErrInvalidModel else None),
      ParseSchema = (\<lambda>db dest. Inr ex_schema),
      Sprint_v = (\<lambda>v. case v of Typed k (Some s) \<Rightarrow> s | _ \<Rightarrow> ''<nil>''),
      Decode = (\<lambda>fs tok dest.
                  if tok = ''bad'' then ([], Some (ErrOther ''illegal base64 data''))
                  else if tok = ''null'' then (map (\<lambda>f. NilIface) fs, None)
                  else (map (\<lambda>f. Typed Scalar (Some tok)) fs, None)),
      Encode = (\<lambda>fs row. if row = ''bad'' then Inl (ErrOther ''unsupported type'')
                          else Inr (''tok:'' @ row)),
      Find = (\<lambda>db dest. (db, RowSlice [''r1'', ''r2'', ''r3'']))\<rparr>"

definition ex_env_failing :: "(string, string) collaborators" where
  "ex_env_failing =
     ex_env\<lparr>Find := (\<lambda>db dest. (db\<lparr>Error := Some (ErrOther ''connection refused'')\<rparr>, dest))\<rparr>"

definition ex_env_empty :: "(string, string) collaborators" where
  "ex_env_empty = ex_env\<lparr>Find := (\<lambda>db dest. (db, RowSlice []))\<rparr>"

definition ex_env_badrow :: "(string, string) collaborators" where
  "ex_env_badrow = ex_env\<lparr>Find := (\<lambda>db dest. (db, RowSlice [''bad'']))\<rparr>"

definition ex_env_noschema :: "(string, string) collaborators" where
  "ex_env_noschema = ex_env\<lparr>ParseSchema := (\<lambda>db dest. Inl (ErrOther ''unsupported data type''))\<rparr>"

definition ex_rule_created :: "string Rule" where
  "ex_rule_created =
     \<lparr>Key = ''CreatedAt'', Order = [], SQLRepr = [], SQLType = None,
      NULLReplacement = NilIface, CustomType = None\<rparr>"

definition ex_rule_id :: "string Rule" where
  "ex_rule_id =
     \<lparr>Key = ''ID'', Order = ASC, SQLRepr = [], SQLType = Some ''bigint'',
      NULLReplacement = Typed Scalar (Some ''0''), CustomType = None\<rparr>"

definition ex_paginator :: "Cursor \<Rightarrow> string Paginator" where
  "ex_paginator c =
     \<lparr>cursor = c, rules = [ex_rule_created, ex_rule_id], limit = 2, order = DESC\<rparr>"

text \<open>The same paginator after its rules have been resolved.\<close>

definition ex_resolved :: "Cursor \<Rightarrow> string Paginator" where
  "ex_resolved c =
     \<lparr>cursor = c,
      rules = [ex_rule_created\<lparr>SQLRepr := ''orders.created_at'', Order := DESC\<rparr>,
               ex_rule_id\<lparr>SQLRepr := ''CAST( COALESCE(orders.id, '0') AS bigint )''\<rparr>],
      limit = 2, order = DESC\<rparr>"

text \<open>And after they have gone through the resolution a second time.\<close>

definition ex_resolved_twice :: "Cursor \<Rightarrow> string Paginator" where
  "ex_resolved_twice c =
     \<lparr>cursor = c,
      rules = [ex_rule_created\<lparr>SQLRepr := ''orders.created_at'', Order := DESC\<rparr>,
               ex_rule_id\<lparr>SQLRepr :=
                 ''CAST( COALESCE(CAST( COALESCE(orders.id, '0') AS bigint ), '0') AS bigint )''\<rparr>],
      limit = 2, order = DESC\<rparr>"

definition no_cursor :: Cursor where
  "no_cursor = \<lparr>After = None, Before = None\<rparr>"

definition after_t :: Cursor where
  "after_t = \<lparr>After = Some ''t'', Before = None\<rparr>"

definition after_bad :: Cursor where
  "after_bad = \<lparr>After = Some ''bad'', Before = None\<rparr>"

definition before_t :: Cursor where
  "before_t = \<lparr>After = None, Before = Some ''t''\<rparr>"

text \<open>What the example decoder makes of the token \<open>t\<close>.\<close>

definition ex_fields :: "string iface list" where
  "ex_fields = [Typed Scalar (Some ''t''), Typed Scalar (Some ''t'')]"

definition ex_db :: "string DB" where
  "ex_db = \<lparr>Limit_clause = None, Order_clauses = [], Where_clauses = [], Error = None\<rparr>"

definition ex_dest :: "string dest" where
  "ex_dest = RowSlice []"

section \<open>Properties of the query builder\<close>

lemma fold_append_concat:
  "fold (\<lambda>i args. args @ f i) xs acc = acc @ concat (map f xs)"
  by (induction xs arbitrary: acc) auto

lemma upt_Suc_shift: "[Suc 0 ..< Suc n] = map Suc [0 ..< n]"
  by (simp add: map_Suc_upt del: upt_Suc)

lemma BuildCursorSQLQueryArgs_spec_args:
  "BuildCursorSQLQueryArgs p flds = spec_args flds"
  by (simp add: BuildCursorSQLQueryArgs_def spec_args_def fold_append_concat upt_Suc_shift
      comp_def del: upt_Suc)

lemma direction_of_Forward: "(direction_of p = Forward) = isForward p"
  by (simp add: direction_of_def isForward_def)

lemma direction_of_Backward: "(direction_of p = Backward) = isBackward p"
  by (simp add: direction_of_def isForward_def isBackward_def)

lemma BuildCursorSQLQuery_loop_clauses:
  "BuildCursorSQLQuery_loop p rs query =
     map (\<lambda>i. query @ spec_clause (direction_of p) rs i) [0 ..< length rs]"
proof (induction rs arbitrary: query)
  case Nil
  then show ?case by simp
next
  case (Cons rule rs)
  have shift: "[0 ..< length (rule # rs)] = 0 # map Suc [0 ..< length rs]"
    by (simp add: upt_conv_Cons map_Suc_upt del: upt_Suc)
  have later: "\<And>i. spec_clause (direction_of p) (rule # rs) (Suc i) =
      SQLRepr rule @ '' = ? AND '' @ spec_clause (direction_of p) rs i"
    by (simp add: spec_clause_def upt_conv_Cons map_Suc_upt [symmetric] comp_def del: upt_Suc)
  have first: "spec_clause (direction_of p) (rule # rs) 0 =
      SQLRepr rule @ '' '' @ spec_comparator (direction_of p) rule @ '' ?''"
    by (simp add: spec_clause_def)
  show ?case
    unfolding shift
    by (simp add: Cons.IH first later spec_comparator_def direction_of_Forward
        direction_of_Backward Let_def comp_def)
qed

text \<open>
  C1. For every rule set and every tuple of decoded values, the WHERE predicate that
  \<^verbatim>\<open>BuildCursorSQLQuery\<close> generates is the disjunction, over the rule positions \<open>i\<close>, of
  the equality placeholders of the rules before \<open>i\<close> followed by a comparator
  placeholder on rule \<open>i\<close>; the comparator is \<open>>\<close> when the traversal is forward and
  the rule ascends, or the traversal is backward and the rule descends, and \<open><\<close>
  otherwise. The arguments are, clause by clause, the values up to and including
  position \<open>i\<close>, so three values \<open>(v1, v2, v3)\<close> give \<open>[v1, v1, v2, v1, v2, v3]\<close>.
\<close>

theorem BuildCursorSQLQuery_seek_predicate:
  "BuildCursorSQLQuery p = spec_predicate (direction_of p) (rules p)
   \<and> BuildCursorSQLQueryArgs p flds = spec_args flds
   \<and> BuildCursorSQLQueryArgs p [v1, v2, v3] = [v1, v1, v2, v1, v2, v3]"
proof -
  have predicate: "BuildCursorSQLQuery p = spec_predicate (direction_of p) (rules p)"
    by (simp add: BuildCursorSQLQuery_def spec_predicate_def BuildCursorSQLQuery_loop_clauses)
  have three: "BuildCursorSQLQueryArgs p [v1, v2, v3] = [v1, v1, v2, v1, v2, v3]"
    by (simp add: BuildCursorSQLQueryArgs_def)
  from predicate three show ?thesis
    by (simp add: BuildCursorSQLQueryArgs_spec_args)
qed

lemma sint_succ:
  fixes x :: go_int
  assumes "sint x < 2 ^ 63 - 1"
  shows "sint (x + 1) = sint x + 1"
proof -
  have lo: "- (2 ^ 63) \<le> sint x"
    using sint_ge [of x] by simp
  have "sint (x + 1) = signed_take_bit 63 (sint x + 1)"
    by (simp add: sint_word_ariths)
  also have "\<dots> = sint x + 1"
    using assms lo by (simp add: signed_take_bit_int_eq_self)
  finally show ?thesis .
qed

lemma BuildOrderSQL_pairs:
  "BuildOrderSQL p =
     Join (map (\<lambda>(e, d). e @ '' '' @ d) (spec_buildOrder (direction_of p) (rules p))) '', ''"
  by (simp add: BuildOrderSQL_def spec_buildOrder_def comp_def Let_def direction_of_Backward)

text \<open>
  C4. For every configuration, the statement that \<^verbatim>\<open>AppendPagingQuery\<close> builds carries
  the row limit \<open>limit + 1\<close> (Go's addition on \<^verbatim>\<open>int\<close>, which is the number
  \<open>limit + 1\<close> below the largest \<^verbatim>\<open>int\<close>), and one more ORDER BY entry, which lists one
  expression and direction per rule in rule order, the direction being the rule's order,
  flipped exactly when the traversal is backward. A WHERE condition is added exactly
  when the tuple of decoded values is not empty.
\<close>

theorem AppendPagingQuery_clauses:
  "Limit_clause (AppendPagingQuery p db flds) = Some (limit p + 1)
   \<and> (sint (limit p) < 2 ^ 63 - 1 \<longrightarrow>
        map_option sint (Limit_clause (AppendPagingQuery p db flds)) = Some (sint (limit p) + 1))
   \<and> Order_clauses (AppendPagingQuery p db flds) =
        Order_clauses db
        @ [Join (map (\<lambda>(e, d). e @ '' '' @ d) (spec_buildOrder (direction_of p) (rules p))) '', '']
   \<and> map fst (spec_buildOrder (direction_of p) (rules p)) = map SQLRepr (rules p)
   \<and> map snd (spec_buildOrder (direction_of p) (rules p)) =
        map (\<lambda>rule. if isBackward p then flip (Order rule) else Order rule) (rules p)
   \<and> Where_clauses (AppendPagingQuery p db flds) =
        (if flds = [] then Where_clauses db
         else Where_clauses db @ [(BuildCursorSQLQuery p, BuildCursorSQLQueryArgs p flds)])"
  by (simp add: AppendPagingQuery_def Let_def sint_succ BuildOrderSQL_pairs spec_buildOrder_def
      comp_def direction_of_Backward)

lemmas ex_defs =
  ex_resolved_def ex_resolved_twice_def no_cursor_def ex_paginator_def ex_db_def ex_dest_def
  ex_rule_created_def ex_rule_id_def ASC_def DESC_def

theorem AppendPagingQuery_clauses_witness:
  "sint (limit (ex_resolved \<lparr>After = None, Before = Some ''t''\<rparr>)) < 2 ^ 63 - 1
   \<and> map_option sint (Limit_clause (AppendPagingQuery
         (ex_resolved \<lparr>After = None, Before = Some ''t''\<rparr>) ex_db
         [Typed Scalar (Some ''t''), Typed Scalar (Some ''t'')])) = Some 3
   \<and> Order_clauses (AppendPagingQuery
         (ex_resolved \<lparr>After = None, Before = Some ''t''\<rparr>) ex_db
         [Typed Scalar (Some ''t''), Typed Scalar (Some ''t'')]) =
       [''orders.created_at ASC, CAST( COALESCE(orders.id, '0') AS bigint ) DESC'']"
  using AppendPagingQuery_clauses [of "ex_resolved \<lparr>After = None, Before = Some ''t''\<rparr>" ex_db
      "[Typed Scalar (Some ''t''), Typed Scalar (Some ''t'')]"]
  by (simp add: ex_defs spec_buildOrder_def direction_of_def flip_def)

section \<open>The two paginators agree\<close>

lemma Sql_isForward_base: "Sql_isForward sp = isForward (base sp)"
  by (simp add: Sql_isForward_def isForward_def)

lemma Sql_isBackward_base: "Sql_isBackward sp = isBackward (base sp)"
  by (simp add: Sql_isBackward_def isBackward_def Sql_isForward_base)

lemma Sql_loop_base:
  "Sql_BuildCursorSQLQuery_loop sp rs query = BuildCursorSQLQuery_loop (base sp) rs query"
  by (induction rs arbitrary: query) (simp_all add: Sql_isForward_base Sql_isBackward_base)

lemma Sql_getEncoderFields_base: "Sql_getEncoderFields sp = getEncoderFields (base sp)"
  by (simp add: Sql_getEncoderFields_def getEncoderFields_def)

lemma Sql_getDecoderFields_base: "Sql_getDecoderFields sp = getDecoderFields (base sp)"
  by (simp add: Sql_getDecoderFields_def getDecoderFields_def)

text \<open>
  C10. On the same configuration (the embedded paginator of the \<^verbatim>\<open>SqlPaginator\<close>), the
  same decoded values, the same rows and the same codec, the methods
  \<^verbatim>\<open>BuildCursorSQLQuery\<close>, \<^verbatim>\<open>BuildOrderSQL\<close>, \<^verbatim>\<open>BuildCursorSQLQueryArgs\<close>,
  \<^verbatim>\<open>DecodeCursor\<close> and \<^verbatim>\<open>EncodeCursor\<close> of \<^verbatim>\<open>SqlPaginator\<close> return what the methods of
  \<^verbatim>\<open>Paginator\<close> return, panics included.
\<close>

theorem SqlPaginator_agrees:
  "Sql_BuildCursorSQLQuery sp = BuildCursorSQLQuery (base sp)
   \<and> Sql_BuildOrderSQL sp = BuildOrderSQL (base sp)
   \<and> Sql_BuildCursorSQLQueryArgs sp flds = BuildCursorSQLQueryArgs (base sp) flds
   \<and> Sql_DecodeCursor env sp dest = DecodeCursor env (base sp) dest
   \<and> Sql_EncodeCursor env sp elems hasMore = EncodeCursor env (base sp) elems hasMore"
proof -
  have q: "Sql_BuildCursorSQLQuery sp = BuildCursorSQLQuery (base sp)"
    by (simp add: Sql_BuildCursorSQLQuery_def BuildCursorSQLQuery_def Sql_loop_base)
  have o: "Sql_BuildOrderSQL sp = BuildOrderSQL (base sp)"
    by (simp add: Sql_BuildOrderSQL_def BuildOrderSQL_def Sql_isBackward_base)
  have a: "Sql_BuildCursorSQLQueryArgs sp flds = BuildCursorSQLQueryArgs (base sp) flds"
    by (simp add: Sql_BuildCursorSQLQueryArgs_def BuildCursorSQLQueryArgs_def)
  have d: "Sql_DecodeCursor env sp dest = DecodeCursor env (base sp) dest"
    by (simp add: Sql_DecodeCursor_def DecodeCursor_def Sql_isForward_base
        Sql_isBackward_base Sql_getDecoderFields_base)
  have e: "Sql_EncodeCursor env sp elems hasMore = EncodeCursor env (base sp) elems hasMore"
    by (simp add: Sql_EncodeCursor_def EncodeCursor_def Sql_isForward_base
        Sql_isBackward_base Sql_getEncoderFields_base)
  from q o a d e show ?thesis by simp
qed

section \<open>Validation\<close>

lemma validate_rules_find:
  "validate_rules env rs db dest =
     (case find (\<lambda>r. rule_validate env r db dest \<noteq> None) rs of
        None \<Rightarrow> None
      | Some r \<Rightarrow> rule_validate env r db dest)"
  by (induction rs) (auto split: option.splits)

text \<open>
  C8. \<^verbatim>\<open>validate\<close> fails with \<open>ErrNoRule\<close> when there is no rule, whatever the limit;
  otherwise with \<open>ErrInvalidLimit\<close> when the limit is not positive; otherwise with the
  error of the paginator order's validation; otherwise with the error of the first rule
  whose validation fails; and it succeeds when none of these fails.
\<close>

theorem validate_check_order:
  "validate env p db dest =
     (if rules p = [] then Some ErrNoRule
      else if sint (limit p) \<le> 0 then Some ErrInvalidLimit
      else if order_validate env (order p) \<noteq> None then order_validate env (order p)
      else (case find (\<lambda>r. rule_validate env r db dest \<noteq> None) (rules p) of
              None \<Rightarrow> None
            | Some r \<Rightarrow> rule_validate env r db dest))"
  by (auto simp: validate_def validate_rules_find split: option.splits)

section \<open>Decoding the cursor\<close>

lemma replace_null_values_fill:
  "i + length vs \<le> length rs \<Longrightarrow>
   replace_null_values rs i vs =
     Inr (map (\<lambda>j. if isNil (vs ! j) then NULLReplacement (rs ! (i + j)) else vs ! j)
            [0 ..< length vs])"
proof (induction vs arbitrary: i)
  case Nil
  then show ?case by simp
next
  case (Cons v vs)
  have shift: "[0 ..< length (v # vs)] = 0 # map Suc [0 ..< length vs]"
    by (simp add: upt_conv_Cons map_Suc_upt del: upt_Suc)
  from Cons.prems have "Suc i + length vs \<le> length rs" and "i < length rs"
    by simp_all
  with Cons.IH [of "Suc i"] show ?case
    unfolding shift by (simp add: comp_def)
qed

text \<open>
  C5. \<^verbatim>\<open>DecodeCursor\<close> decodes the \<open>After\<close> token when there is one, also when a
  \<open>Before\<close> token is set as well; otherwise it decodes the \<open>Before\<close> token when there
  is one; otherwise it returns the empty tuple. A failure of the decoder is returned as
  \<open>ErrInvalidCursor\<close>. In the decoded tuple (one value per rule at most, which is what
  the decoder gives) every position whose value is nil holds the \<open>NULLReplacement\<close> of
  the rule at that position, which is the nil interface when none is configured.
\<close>

theorem DecodeCursor_precedence:
  "(After (cursor p) = Some a \<and> Decode env (getDecoderFields p) a dest = (vs, e)
      \<and> length vs \<le> length (rules p) \<longrightarrow>
      DecodeCursor env p dest =
        Inr (map (\<lambda>i. if isNil (vs ! i) then NULLReplacement (rules p ! i) else vs ! i)
               [0 ..< length vs],
             if e = None then None else Some ErrInvalidCursor))
   \<and> (After (cursor p) = None \<and> Before (cursor p) = Some b
      \<and> Decode env (getDecoderFields p) b dest = (vs, e)
      \<and> length vs \<le> length (rules p) \<longrightarrow>
      DecodeCursor env p dest =
        Inr (map (\<lambda>i. if isNil (vs ! i) then NULLReplacement (rules p ! i) else vs ! i)
               [0 ..< length vs],
             if e = None then None else Some ErrInvalidCursor))
   \<and> (After (cursor p) = None \<and> Before (cursor p) = None \<longrightarrow>
      DecodeCursor env p dest = Inr ([], None))"
  by (auto simp: DecodeCursor_def isForward_def isBackward_def replace_null_values_fill)

theorem DecodeCursor_precedence_witness:
  "DecodeCursor ex_env (ex_resolved \<lparr>After = Some ''null'', Before = Some ''t''\<rparr>) ex_dest =
     Inr ([NilIface, Typed Scalar (Some ''0'')], None)
   \<and> DecodeCursor ex_env (ex_resolved \<lparr>After = None, Before = Some ''bad''\<rparr>) ex_dest =
     Inr ([], Some ErrInvalidCursor)
   \<and> DecodeCursor ex_env (ex_resolved \<lparr>After = None, Before = None\<rparr>) ex_dest =
     Inr ([], None)"
  using
    DecodeCursor_precedence [where p = "ex_resolved \<lparr>After = Some ''null'', Before = Some ''t''\<rparr>"
      and a = "''null''" and env = ex_env and dest = ex_dest and vs = "[NilIface, NilIface]"
      and e = None]
    DecodeCursor_precedence [where p = "ex_resolved \<lparr>After = None, Before = Some ''bad''\<rparr>"
      and b = "''bad''" and env = ex_env and dest = ex_dest and vs = "[]"
      and e = "Some (ErrOther ''illegal base64 data'')"]
    DecodeCursor_precedence [where p = "ex_resolved \<lparr>After = None, Before = None\<rparr>"
      and env = ex_env and dest = ex_dest]
  by (simp add: ex_defs ex_env_def getDecoderFields_def)

section \<open>Encoding the cursor\<close>

lemma EncodeCursor_no_panic:
  "elems \<noteq> [] \<Longrightarrow> \<exists>c e. EncodeCursor env p elems hasMore = Inr (c, e)"
  by (cases elems) (auto simp: EncodeCursor_def Index_def Let_def split: sum.splits)

lemma EncodeCursor_error_empty:
  "EncodeCursor env p elems hasMore = Inr (c, Some e) \<Longrightarrow> c = \<lparr>After = None, Before = None\<rparr>"
  by (auto simp: EncodeCursor_def Index_def Let_def split: sum.splits if_splits)

lemma Index_last: "elems \<noteq> [] \<Longrightarrow> Index elems (int (length elems) - 1) = Inr (last elems)"
  by (cases elems rule: rev_cases) (simp_all add: Index_def nat_diff_distrib' nth_append)

lemma Index_first: "elems \<noteq> [] \<Longrightarrow> Index elems 0 = Inr (hd elems)"
  by (cases elems) (simp_all add: Index_def)

lemma setup_paginator_fields:
  "setup_paginator env p db dest = Inr (p', e) \<Longrightarrow>
     cursor p' = cursor p \<and> limit p' = limit p \<and> order p' = order p"
  by (auto simp: setup_paginator_def split: sum.splits)

lemma setup_paginator_direction:
  "setup_paginator env p db dest = Inr (p', e) \<Longrightarrow>
     isForward p' = isForward p \<and> isBackward p' = isBackward p"
  by (simp add: isForward_def isBackward_def setup_paginator_fields)

lemma validate_limit: "validate env p db dest = None \<Longrightarrow> 0 < sint (limit p)"
  by (auto simp: validate_def split: if_splits)

lemma ex_validate:
  "validate (ex_env\<lparr>Find := f\<rparr>) (ex_paginator c) ex_db ex_dest = None"
  by (simp add: validate_def ex_env_def ex_defs)

lemma ex_setup:
  "setup_paginator (ex_env\<lparr>Find := f\<rparr>) (ex_paginator c) ex_db ex_dest =
     Inr (ex_resolved c, None)"
  by (simp add: setup_paginator_def setup_resolve_def setup_wrap_def parseSQLKey_def
      ex_env_def ex_schema_def ex_defs)

lemma ex_decode_first_page:
  "DecodeCursor (ex_env\<lparr>Find := f\<rparr>) (ex_resolved no_cursor) ex_dest = Inr ([], None)"
  by (simp add: DecodeCursor_def isForward_def isBackward_def ex_defs)

lemma ex_query:
  "AppendPagingQuery (ex_resolved no_cursor) ex_db [] =
     \<lparr>Limit_clause = Some 3,
      Order_clauses = [''orders.created_at DESC, CAST( COALESCE(orders.id, '0') AS bigint ) ASC''],
      Where_clauses = [], Error = None\<rparr>"
  by (simp add: AppendPagingQuery_def BuildOrderSQL_def isForward_def isBackward_def ex_defs)

text \<open>
  C2. On a page that is not empty and whose first and last rows the encoder accepts,
  \<^verbatim>\<open>EncodeCursor\<close> returns an \<open>After\<close> token, the encoding of the last row,
  exactly when the traversal is backward or there are more rows, and a \<open>Before\<close>
  token, the encoding of the first row, exactly when the traversal is forward, or
  backward with more rows. When the query returns no row, \<^verbatim>\<open>Paginate\<close> returns
  the empty cursor.
\<close>

theorem EncodeCursor_tokens:
  "(elems \<noteq> [] \<and> Encode env (getEncoderFields p) (last elems) = Inr a
      \<and> Encode env (getEncoderFields p) (hd elems) = Inr b \<longrightarrow>
      EncodeCursor env p elems hasMore =
        Inr (\<lparr>After = (if isBackward p \<or> hasMore then Some a else None),
              Before = (if isForward p \<or> (isBackward p \<and> hasMore) then Some b else None)\<rparr>,
             None))
   \<and> (validate env p db dest = None \<and> setup_paginator env p db dest = Inr (p', None)
      \<and> DecodeCursor env p' dest = Inr (flds, None)
      \<and> Find env (AppendPagingQuery p' db flds) dest = (res, RowSlice []) \<longrightarrow>
      Paginate env p db dest =
        Inr \<lparr>out_paginator = p', out_dest = RowSlice [], out_result = Some res,
             out_cursor = \<lparr>After = None, Before = None\<rparr>, out_err = None\<rparr>)"
proof -
  have tokens: "EncodeCursor env p elems hasMore =
        Inr (\<lparr>After = (if isBackward p \<or> hasMore then Some a else None),
              Before = (if isForward p \<or> (isBackward p \<and> hasMore) then Some b else None)\<rparr>,
             None)"
    if "elems \<noteq> []" and "Encode env (getEncoderFields p) (last elems) = Inr a"
      and "Encode env (getEncoderFields p) (hd elems) = Inr b"
    using that by (auto simp: EncodeCursor_def Let_def Index_last Index_first)
  have empty: "Paginate env p db dest =
        Inr \<lparr>out_paginator = p', out_dest = RowSlice [], out_result = Some res,
             out_cursor = \<lparr>After = None, Before = None\<rparr>, out_err = None\<rparr>"
    if "validate env p db dest = None" and "setup_paginator env p db dest = Inr (p', None)"
      and "DecodeCursor env p' dest = Inr (flds, None)"
      and "Find env (AppendPagingQuery p' db flds) dest = (res, RowSlice [])"
    using that by (simp add: Paginate_def)
  from tokens empty show ?thesis by blast
qed

theorem EncodeCursor_tokens_witness:
  "EncodeCursor ex_env (ex_resolved \<lparr>After = None, Before = Some ''t''\<rparr>) [''r1'', ''r2''] False =
     Inr (\<lparr>After = Some ''tok:r2'', Before = None\<rparr>, None)
   \<and> Paginate ex_env_empty (ex_paginator no_cursor) ex_db ex_dest =
     Inr \<lparr>out_paginator = ex_resolved no_cursor, out_dest = RowSlice [],
          out_result = Some (AppendPagingQuery (ex_resolved no_cursor) ex_db []),
          out_cursor = \<lparr>After = None, Before = None\<rparr>, out_err = None\<rparr>"
proof -
  have tokens: "EncodeCursor ex_env (ex_resolved \<lparr>After = None, Before = Some ''t''\<rparr>)
      [''r1'', ''r2''] False = Inr (\<lparr>After = Some ''tok:r2'', Before = None\<rparr>, None)"
    using EncodeCursor_tokens [where elems = "[''r1'', ''r2'']" and env = ex_env
        and p = "ex_resolved \<lparr>After = None, Before = Some ''t''\<rparr>"
        and a = "''tok:r2''" and b = "''tok:r1''" and hasMore = False]
    by (simp add: ex_env_def isForward_def isBackward_def ex_resolved_def)
  have empty: "Paginate ex_env_empty (ex_paginator no_cursor) ex_db ex_dest =
     Inr \<lparr>out_paginator = ex_resolved no_cursor, out_dest = RowSlice [],
          out_result = Some (AppendPagingQuery (ex_resolved no_cursor) ex_db []),
          out_cursor = \<lparr>After = None, Before = None\<rparr>, out_err = None\<rparr>"
    using EncodeCursor_tokens [where elems = "[]" and env = ex_env_empty and p = "ex_paginator no_cursor"
        and db = ex_db and dest = ex_dest and p' = "ex_resolved no_cursor" and flds = "[]"
        and res = "AppendPagingQuery (ex_resolved no_cursor) ex_db []"]
    by (simp add: ex_env_empty_def ex_validate ex_setup ex_decode_first_page)
  from tokens empty show ?thesis by simp
qed

section \<open>Trimming and reversing the page\<close>

lemma spec_trim_nonempty:
  "rows \<noteq> [] \<Longrightarrow> 0 < lim \<Longrightarrow> spec_trim lim rows \<noteq> []"
  by (cases rows rule: rev_cases) (auto simp: spec_trim_def)

lemma spec_page_nonempty:
  "rows \<noteq> [] \<Longrightarrow> 0 < lim \<Longrightarrow> spec_page d lim rows \<noteq> []"
  by (simp add: spec_page_def spec_trim_nonempty)

lemma trimmed_page:
  "(let hasMore = (int (length rows) > sint (limit p));
        elems = (if hasMore then take (length rows - 1) rows else rows);
        elems = (if isBackward p then reverse elems else elems)
    in f elems hasMore) =
   f (spec_page (direction_of p) (sint (limit p)) rows) (int (length rows) > sint (limit p))"
  by (simp add: Let_def spec_page_def spec_trim_def reverse_def butlast_conv_take
      direction_of_Backward)

lemma Paginate_page:
  assumes v: "validate env p db dest = None"
    and s: "setup_paginator env p db dest = Inr (p', None)"
    and d: "DecodeCursor env p' dest = Inr (flds, None)"
    and f: "Find env (AppendPagingQuery p' db flds) dest = (res, RowSlice rows)"
    and ok: "Error res = None" and ne: "rows \<noteq> []"
  shows "Paginate env p db dest =
        (case EncodeCursor env p' (spec_page (direction_of p) (sint (limit p)) rows)
                (int (length rows) > sint (limit p)) of
           Inl pn \<Rightarrow> Inl pn
         | Inr (c, e) \<Rightarrow>
             Inr \<lparr>out_paginator = p',
                  out_dest = RowSlice (spec_page (direction_of p) (sint (limit p)) rows),
                  out_result = Some res, out_cursor = c, out_err = e\<rparr>)"
proof -
  let ?page' = "spec_page (direction_of p') (sint (limit p')) rows"
  let ?more' = "int (length rows) > sint (limit p')"
  have same: "limit p' = limit p" "direction_of p' = direction_of p"
    using setup_paginator_fields [OF s] by (simp_all add: direction_of_def)
  have "Paginate env p db dest =
        (case EncodeCursor env p' ?page' ?more' of
           Inl pn \<Rightarrow> Inl pn
         | Inr (c, e) \<Rightarrow>
             Inr \<lparr>out_paginator = p', out_dest = RowSlice ?page',
                  out_result = Some res, out_cursor = c, out_err = e\<rparr>)"
    using ne trimmed_page [where rows = rows and p = p' and f =
        "\<lambda>elems hasMore. case EncodeCursor env p' elems hasMore of
           Inl pn \<Rightarrow> Inl pn
         | Inr (c, e) \<Rightarrow>
             Inr \<lparr>out_paginator = p', out_dest = RowSlice elems,
                  out_result = Some res, out_cursor = c, out_err = e\<rparr>"]
    by (simp add: Paginate_def v s d f ok)
  then show ?thesis unfolding same .
qed

text \<open>
  C3. When the query succeeds with at least one row, \<^verbatim>\<open>Paginate\<close> leaves in the
  destination the fetched rows without the last one if there are more than \<open>limit\<close>
  of them (and all of them otherwise), reversed if the traversal is backward, and
  encodes the cursor of that page with \<open>hasMore\<close> saying whether a row was dropped.
  \<^verbatim>\<open>GetCursor\<close> does the same on a paginator whose limit is positive. When the
  engine returned at most \<open>limit + 1\<close> rows, the page is the first \<open>limit\<close> of them, so
  the row at position \<open>limit + 1\<close> is never in it.
\<close>

theorem Paginate_trim_reverse:
  "(validate env p db dest = None \<and> setup_paginator env p db dest = Inr (p', None)
      \<and> DecodeCursor env p' dest = Inr (flds, None)
      \<and> Find env (AppendPagingQuery p' db flds) dest = (res, RowSlice rows)
      \<and> Error res = None \<and> rows \<noteq> [] \<longrightarrow>
      (\<exists>c e. EncodeCursor env p' (spec_page (direction_of p) (sint (limit p)) rows)
                (int (length rows) > sint (limit p)) = Inr (c, e)
             \<and> Paginate env p db dest =
                 Inr \<lparr>out_paginator = p',
                      out_dest = RowSlice (spec_page (direction_of p) (sint (limit p)) rows),
                      out_result = Some res, out_cursor = c, out_err = e\<rparr>))
   \<and> (0 < sint (limit p) \<and> rows \<noteq> [] \<longrightarrow>
      (\<exists>c e. EncodeCursor env p (spec_page (direction_of p) (sint (limit p)) rows)
                (int (length rows) > sint (limit p)) = Inr (c, e)
             \<and> GetCursor env p (RowSlice rows) =
                 Inr (RowSlice (spec_page (direction_of p) (sint (limit p)) rows), c, e)))
   \<and> (0 < sint (limit p) \<and> int (length rows) \<le> sint (limit p) + 1 \<longrightarrow>
        int (length (spec_page (direction_of p) (sint (limit p)) rows)) \<le> sint (limit p)
        \<and> spec_page (direction_of p) (sint (limit p)) rows =
            (if isBackward p then rev (take (nat (sint (limit p))) rows)
             else take (nat (sint (limit p))) rows))"
proof -
  let ?page = "spec_page (direction_of p) (sint (limit p)) rows"
  let ?more = "int (length rows) > sint (limit p)"
  have paginate: "\<exists>c e. EncodeCursor env p' ?page ?more = Inr (c, e)
             \<and> Paginate env p db dest =
                 Inr \<lparr>out_paginator = p', out_dest = RowSlice ?page,
                      out_result = Some res, out_cursor = c, out_err = e\<rparr>"
    if v: "validate env p db dest = None" and s: "setup_paginator env p db dest = Inr (p', None)"
      and d: "DecodeCursor env p' dest = Inr (flds, None)"
      and f: "Find env (AppendPagingQuery p' db flds) dest = (res, RowSlice rows)"
      and ok: "Error res = None" and ne: "rows \<noteq> []"
  proof -
    from validate_limit [OF v] ne have "?page \<noteq> []"
      by (rule spec_page_nonempty [rotated])
    then obtain c e where enc: "EncodeCursor env p' ?page ?more = Inr (c, e)"
      using EncodeCursor_no_panic by blast
    with Paginate_page [OF v s d f ok ne] show ?thesis by simp
  qed
  have getcursor: "\<exists>c e. EncodeCursor env p ?page ?more = Inr (c, e)
             \<and> GetCursor env p (RowSlice rows) = Inr (RowSlice ?page, c, e)"
    if pos: "0 < sint (limit p)" and ne: "rows \<noteq> []"
  proof -
    from pos ne have "?page \<noteq> []"
      by (rule spec_page_nonempty [rotated])
    then obtain c e where enc: "EncodeCursor env p ?page ?more = Inr (c, e)"
      using EncodeCursor_no_panic by blast
    have "GetCursor env p (RowSlice rows) =
        (case EncodeCursor env p ?page ?more of
           Inl pn \<Rightarrow> Inl pn
         | Inr (c, e) \<Rightarrow> Inr (RowSlice ?page, c, e))"
      using ne trimmed_page [where rows = rows and p = p and f =
          "\<lambda>elems hasMore. case EncodeCursor env p elems hasMore of
             Inl pn \<Rightarrow> Inl pn
           | Inr (c, e) \<Rightarrow> Inr (RowSlice elems, c, e)"]
      by (simp add: GetCursor_def)
    with enc show ?thesis by simp
  qed
  have sentinel: "int (length ?page) \<le> sint (limit p)
        \<and> ?page = (if isBackward p then rev (take (nat (sint (limit p))) rows)
                   else take (nat (sint (limit p))) rows)"
    if pos: "0 < sint (limit p)" and le: "int (length rows) \<le> sint (limit p) + 1"
  proof (cases "int (length rows) > sint (limit p)")
    case True
    with le have len: "length rows = Suc (nat (sint (limit p)))"
      using pos by linarith
    then have "butlast rows = take (nat (sint (limit p))) rows"
      by (simp add: butlast_conv_take)
    with True len pos show ?thesis
      by (simp add: spec_page_def spec_trim_def direction_of_Backward)
  next
    case False
    then have "take (nat (sint (limit p))) rows = rows"
      by simp
    with False show ?thesis
      by (simp add: spec_page_def spec_trim_def direction_of_Backward)
  qed
  from paginate getcursor sentinel show ?thesis by blast
qed

lemma ex_decode_before:
  "DecodeCursor (ex_env\<lparr>Find := f\<rparr>) (ex_resolved before_t) ex_dest =
     Inr ([Typed Scalar (Some ''t''), Typed Scalar (Some ''t'')], None)"
  by (simp add: DecodeCursor_def isForward_def isBackward_def getDecoderFields_def ex_env_def
      ex_defs before_t_def)

lemma ex_encode_before:
  "EncodeCursor ex_env (ex_resolved before_t) [''r2'', ''r1''] True =
     Inr (\<lparr>After = Some ''tok:r1'', Before = Some ''tok:r2''\<rparr>, None)"
  by (simp add: EncodeCursor_def Index_def isForward_def isBackward_def ex_env_def
      ex_resolved_def before_t_def)

lemma ex_page: "spec_page Backward 2 [''r1'', ''r2'', ''r3''] = [''r2'', ''r1'']"
  by (simp add: spec_page_def spec_trim_def)

theorem Paginate_trim_reverse_witness:
  "Paginate ex_env (ex_paginator before_t) ex_db ex_dest =
     Inr \<lparr>out_paginator = ex_resolved before_t, out_dest = RowSlice [''r2'', ''r1''],
          out_result = Some (AppendPagingQuery (ex_resolved before_t) ex_db ex_fields),
          out_cursor = \<lparr>After = Some ''tok:r1'', Before = Some ''tok:r2''\<rparr>, out_err = None\<rparr>
   \<and> GetCursor ex_env (ex_resolved before_t) (RowSlice [''r1'', ''r2'', ''r3'']) =
     Inr (RowSlice [''r2'', ''r1''], \<lparr>After = Some ''tok:r1'', Before = Some ''tok:r2''\<rparr>, None)
   \<and> int (length (spec_page Backward 2 [''r1'', ''r2'', ''r3''])) \<le> 2"
proof -
  have dir: "direction_of (ex_paginator before_t) = Backward"
    "direction_of (ex_resolved before_t) = Backward"
    by (simp_all add: direction_of_def ex_defs before_t_def)
  have lim: "sint (limit (ex_paginator before_t)) = 2" "sint (limit (ex_resolved before_t)) = 2"
    by (simp_all add: ex_defs)
  have env: "ex_env = ex_env\<lparr>Find := Find ex_env\<rparr>"
    by simp
  have find: "Find ex_env q ex_dest = (q, RowSlice [''r1'', ''r2'', ''r3''])" for q
    by (simp add: ex_env_def)
  note inst = Paginate_trim_reverse [where env = ex_env and db = ex_db and dest = ex_dest
      and p' = "ex_resolved before_t" and flds = ex_fields
      and rows = "[''r1'', ''r2'', ''r3'']"]
  have paginate: "Paginate ex_env (ex_paginator before_t) ex_db ex_dest =
     Inr \<lparr>out_paginator = ex_resolved before_t, out_dest = RowSlice [''r2'', ''r1''],
          out_result = Some (AppendPagingQuery (ex_resolved before_t) ex_db ex_fields),
          out_cursor = \<lparr>After = Some ''tok:r1'', Before = Some ''tok:r2''\<rparr>, out_err = None\<rparr>"
    using inst [where p = "ex_paginator before_t"
        and res = "AppendPagingQuery (ex_resolved before_t) ex_db ex_fields"]
      ex_validate [of "Find ex_env" before_t] ex_setup [of "Find ex_env" before_t]
      ex_decode_before [of "Find ex_env"]
    by (simp add: dir lim ex_page ex_encode_before find ex_fields_def AppendPagingQuery_def
        Let_def ex_db_def)
  have getcursor: "GetCursor ex_env (ex_resolved before_t) (RowSlice [''r1'', ''r2'', ''r3'']) =
     Inr (RowSlice [''r2'', ''r1''], \<lparr>After = Some ''tok:r1'', Before = Some ''tok:r2''\<rparr>, None)"
    using inst [where p = "ex_resolved before_t"]
    by (simp add: dir lim ex_page ex_encode_before)
  have sentinel: "int (length (spec_page Backward 2 [''r1'', ''r2'', ''r3''])) \<le> 2"
    using inst [where p = "ex_resolved before_t"]
    by (simp add: dir lim)
  from paginate getcursor sentinel show ?thesis by simp
qed

section \<open>Resolving the rules\<close>

lemma setup_wrap_SQLRepr:
  "SQLRepr (setup_wrap env ord r) =
     spec_cast (SQLType r) (spec_coalesce (Sprint_v env) (NULLReplacement r) (SQLRepr r))"
  by (simp add: setup_wrap_def spec_cast_def spec_coalesce_def Let_def split: option.splits)

lemma setup_wrap_Order:
  "Order (setup_wrap env ord r) = (if Order r = [] then ord else Order r)"
  by (simp add: setup_wrap_def Let_def split: option.splits)

lemma setup_resolve_schema:
  assumes "ParseSchema env db dest = Inr schema"
    and "sqlTable = [] \<or> sqlTable = Table schema"
    and "SQLRepr r = [] \<longrightarrow> LookUpField schema (Key r) \<noteq> None"
  shows "\<exists>sqlTable'. (sqlTable' = [] \<or> sqlTable' = Table schema) \<and>
     setup_resolve env db dest sqlTable r =
       Inr (Inr (sqlTable',
         if SQLRepr r = []
         then r\<lparr>SQLRepr := Table schema @ ''.'' @ the (LookUpField schema (Key r))\<rparr>
         else r))"
  using assms by (auto simp: setup_resolve_def parseSQLKey_def)

lemma setup_loop_schema:
  assumes "ParseSchema env db dest = Inr schema"
    and "sqlTable = [] \<or> sqlTable = Table schema"
    and "\<forall>r\<in>set rs. SQLRepr r = [] \<longrightarrow> LookUpField schema (Key r) \<noteq> None"
  shows "setup_loop env db dest ord sqlTable rs =
     Inr (map (\<lambda>r. setup_wrap env ord
                 (if SQLRepr r = []
                  then r\<lparr>SQLRepr := Table schema @ ''.'' @ the (LookUpField schema (Key r))\<rparr>
                  else r)) rs, None)"
  using assms(2,3)
proof (induction rs arbitrary: sqlTable)
  case Nil
  then show ?case by simp
next
  case (Cons r rs)
  from Cons.prems have key: "SQLRepr r = [] \<longrightarrow> LookUpField schema (Key r) \<noteq> None"
    and rest: "\<forall>r\<in>set rs. SQLRepr r = [] \<longrightarrow> LookUpField schema (Key r) \<noteq> None"
    by simp_all
  from setup_resolve_schema [OF assms(1) Cons.prems(1) key]
  obtain sqlTable' where t: "sqlTable' = [] \<or> sqlTable' = Table schema"
    and res: "setup_resolve env db dest sqlTable r =
       Inr (Inr (sqlTable',
         if SQLRepr r = []
         then r\<lparr>SQLRepr := Table schema @ ''.'' @ the (LookUpField schema (Key r))\<rparr>
         else r))"
    by blast
  show ?case
    by (simp add: res Cons.IH [OF t rest])
qed

text \<open>
  C7. When the schema parses and the key of every rule without an expression names a
  field, the resolution succeeds, and a rule that came without an expression gets
  \<open>table.column\<close>, wrapped in \<open>COALESCE\<close> with the replacement when the rule has a
  \<open>NULLReplacement\<close>, and that wrapped in \<open>CAST\<close> when the rule has an \<open>SQLType\<close>: the
  cast is outermost. Every rule whose order is unset gets the paginator's order.
\<close>

theorem setup_resolution_order:
  "ParseSchema env db dest = Inr schema
   \<and> (\<forall>r\<in>set (rules p). SQLRepr r = [] \<longrightarrow> LookUpField schema (Key r) \<noteq> None) \<longrightarrow>
   (\<exists>p'. setup_paginator env p db dest = Inr (p', None)
      \<and> length (rules p') = length (rules p)
      \<and> (\<forall>i<length (rules p).
            (SQLRepr (rules p ! i) = [] \<longrightarrow>
               (\<exists>col. LookUpField schema (Key (rules p ! i)) = Some col
                  \<and> SQLRepr (rules p' ! i) =
                      spec_cast (SQLType (rules p ! i))
                        (spec_coalesce (Sprint_v env) (NULLReplacement (rules p ! i))
                           (Table schema @ ''.'' @ col))))
            \<and> Order (rules p' ! i) =
                (if Order (rules p ! i) = [] then order p else Order (rules p ! i))))"
proof (intro impI, elim conjE)
  assume ps: "ParseSchema env db dest = Inr schema"
    and keys: "\<forall>r\<in>set (rules p). SQLRepr r = [] \<longrightarrow> LookUpField schema (Key r) \<noteq> None"
  let ?res = "\<lambda>r. setup_wrap env (order p)
                 (if SQLRepr r = []
                  then r\<lparr>SQLRepr := Table schema @ ''.'' @ the (LookUpField schema (Key r))\<rparr>
                  else r)"
  let ?p' = "p\<lparr>rules := map ?res (rules p)\<rparr>"
  have run: "setup_paginator env p db dest = Inr (?p', None)"
    by (simp add: setup_paginator_def setup_loop_schema [OF ps _ keys])
  have each: "(SQLRepr (rules p ! i) = [] \<longrightarrow>
               (\<exists>col. LookUpField schema (Key (rules p ! i)) = Some col
                  \<and> SQLRepr (rules ?p' ! i) =
                      spec_cast (SQLType (rules p ! i))
                        (spec_coalesce (Sprint_v env) (NULLReplacement (rules p ! i))
                           (Table schema @ ''.'' @ col))))
            \<and> Order (rules ?p' ! i) =
                (if Order (rules p ! i) = [] then order p else Order (rules p ! i))"
    if i: "i < length (rules p)" for i
  proof -
    from i have mem: "rules p ! i \<in> set (rules p)"
      by simp
    with keys have "SQLRepr (rules p ! i) = [] \<longrightarrow> LookUpField schema (Key (rules p ! i)) \<noteq> None"
      by blast
    with i show ?thesis
      by (auto simp: setup_wrap_SQLRepr setup_wrap_Order)
  qed
  from run each show "\<exists>p'. setup_paginator env p db dest = Inr (p', None)
      \<and> length (rules p') = length (rules p)
      \<and> (\<forall>i<length (rules p).
            (SQLRepr (rules p ! i) = [] \<longrightarrow>
               (\<exists>col. LookUpField schema (Key (rules p ! i)) = Some col
                  \<and> SQLRepr (rules p' ! i) =
                      spec_cast (SQLType (rules p ! i))
                        (spec_coalesce (Sprint_v env) (NULLReplacement (rules p ! i))
                           (Table schema @ ''.'' @ col))))
            \<and> Order (rules p' ! i) =
                (if Order (rules p ! i) = [] then order p else Order (rules p ! i)))"
    by (intro exI [of _ ?p']) simp
qed

theorem setup_resolution_order_witness:
  "ParseSchema ex_env ex_db ex_dest = Inr ex_schema
   \<and> setup_paginator ex_env (ex_paginator no_cursor) ex_db ex_dest =
       Inr (ex_resolved no_cursor, None)
   \<and> map SQLRepr (rules (ex_resolved no_cursor)) =
       [''orders.created_at'', ''CAST( COALESCE(orders.id, '0') AS bigint )'']
   \<and> SQLRepr (rules (ex_resolved no_cursor) ! 1) =
       spec_cast (Some ''bigint'')
         (spec_coalesce (Sprint_v ex_env) (Typed Scalar (Some ''0'')) ''orders.id'')
   \<and> map Order (rules (ex_resolved no_cursor)) = [DESC, ASC]"
proof -
  have ps: "ParseSchema ex_env ex_db ex_dest = Inr ex_schema"
    by (simp add: ex_env_def)
  have keys: "\<forall>r\<in>set (rules (ex_paginator no_cursor)).
      SQLRepr r = [] \<longrightarrow> LookUpField ex_schema (Key r) \<noteq> None"
    by (simp add: ex_defs ex_schema_def)
  from setup_resolution_order [where env = ex_env and db = ex_db and dest = ex_dest
      and schema = ex_schema and p = "ex_paginator no_cursor"] ps keys
  obtain p' where run: "setup_paginator ex_env (ex_paginator no_cursor) ex_db ex_dest = Inr (p', None)"
    and each: "\<forall>i<length (rules (ex_paginator no_cursor)).
            (SQLRepr (rules (ex_paginator no_cursor) ! i) = [] \<longrightarrow>
               (\<exists>col. LookUpField ex_schema (Key (rules (ex_paginator no_cursor) ! i)) = Some col
                  \<and> SQLRepr (rules p' ! i) =
                      spec_cast (SQLType (rules (ex_paginator no_cursor) ! i))
                        (spec_coalesce (Sprint_v ex_env)
                           (NULLReplacement (rules (ex_paginator no_cursor) ! i))
                           (Table ex_schema @ ''.'' @ col))))
            \<and> Order (rules p' ! i) =
                (if Order (rules (ex_paginator no_cursor) ! i) = [] then order (ex_paginator no_cursor)
                 else Order (rules (ex_paginator no_cursor) ! i))"
    by blast
  have "ex_env = ex_env\<lparr>Find := Find ex_env\<rparr>"
    by simp
  with ex_setup [of "Find ex_env" no_cursor] run have p': "p' = ex_resolved no_cursor"
    by simp
  have one: "(1::nat) < length (rules (ex_paginator no_cursor))"
    by (simp add: ex_defs)
  from each [rule_format, OF one] have
    "SQLRepr (rules (ex_resolved no_cursor) ! 1) =
       spec_cast (Some ''bigint'')
         (spec_coalesce (Sprint_v ex_env) (Typed Scalar (Some ''0'')) ''orders.id'')"
    unfolding p' by (simp add: ex_defs ex_schema_def)
  with ps run show ?thesis
    unfolding p' by (simp add: ex_defs)
qed

text \<open>
  C6. A second run of the resolution is not the identity: on the example, the rule
  \<open>ID\<close> with a replacement and a type is resolved to a cast of a coalesce by the first
  run, and the second run wraps that expression again.
\<close>

theorem setup_twice_rewraps:
  "setup_paginator ex_env (ex_paginator no_cursor) ex_db ex_dest =
     Inr (ex_resolved no_cursor, None)
   \<and> setup_paginator ex_env (ex_resolved no_cursor) ex_db ex_dest =
     Inr (ex_resolved_twice no_cursor, None)
   \<and> map SQLRepr (rules (ex_resolved no_cursor)) =
       [''orders.created_at'', ''CAST( COALESCE(orders.id, '0') AS bigint )'']
   \<and> map SQLRepr (rules (ex_resolved_twice no_cursor)) =
       [''orders.created_at'',
        ''CAST( COALESCE(CAST( COALESCE(orders.id, '0') AS bigint ), '0') AS bigint )'']"
  by (simp add: setup_paginator_def setup_resolve_def setup_wrap_def parseSQLKey_def
      ex_env_def ex_schema_def ex_defs)

section \<open>Errors of a page request\<close>

lemma ex_failing_query:
  "Find ex_env_failing q ex_dest = (q\<lparr>Error := Some (ErrOther ''connection refused'')\<rparr>, ex_dest)"
  by (simp add: ex_env_failing_def)

lemma ex_decode_after:
  "DecodeCursor (ex_env\<lparr>Find := f\<rparr>) (ex_resolved after_t) ex_dest = Inr (ex_fields, None)"
  by (simp add: DecodeCursor_def isForward_def isBackward_def getDecoderFields_def ex_env_def
      ex_defs after_t_def ex_fields_def)

lemma ex_decode_bad:
  "DecodeCursor (ex_env\<lparr>Find := f\<rparr>) (ex_resolved after_bad) ex_dest =
     Inr ([], Some ErrInvalidCursor)"
  by (simp add: DecodeCursor_def isForward_def isBackward_def getDecoderFields_def ex_env_def
      ex_defs after_bad_def)

lemma ex_noschema_validate:
  "validate ex_env_noschema (ex_paginator c) ex_db ex_dest = None"
  by (simp add: validate_def ex_env_noschema_def ex_env_def ex_defs)

lemma ex_noschema_setup:
  "setup_paginator ex_env_noschema (ex_paginator c) ex_db ex_dest =
     Inr (ex_paginator c, Some (ErrOther ''unsupported data type''))"
  by (simp add: setup_paginator_def setup_resolve_def ex_env_noschema_def ex_env_def ex_defs)

lemma ex_encode_bad:
  "EncodeCursor ex_env_badrow (ex_resolved after_t) [''bad''] False =
     Inr (\<lparr>After = None, Before = None\<rparr>, Some (ErrOther ''unsupported type''))"
  by (simp add: EncodeCursor_def Index_def isForward_def isBackward_def ex_env_badrow_def
      ex_env_def ex_resolved_def after_t_def)

text \<open>
  C9, as the code has it. A failure of validation, of the resolution of the rules or of
  the decoding of the cursor ends \<^verbatim>\<open>Paginate\<close> with that error as its error value, the
  empty cursor, no query built or run and the destination untouched; a failure of the
  encoder ends it with that error and the empty cursor. When the query fails,
  \<^verbatim>\<open>Paginate\<close> ends with the empty cursor and the destination as the engine left
  it, and the failure stands in the \<open>Error\<close> field of the returned statement: the error
  value is nil.
\<close>

theorem Paginate_failures:
  "(validate env p db dest = Some e \<longrightarrow>
      Paginate env p db dest =
        Inr \<lparr>out_paginator = p, out_dest = dest, out_result = None,
             out_cursor = \<lparr>After = None, Before = None\<rparr>, out_err = Some e\<rparr>)
   \<and> (validate env p db dest = None \<and> setup_paginator env p db dest = Inr (p', Some e) \<longrightarrow>
      Paginate env p db dest =
        Inr \<lparr>out_paginator = p', out_dest = dest, out_result = None,
             out_cursor = \<lparr>After = None, Before = None\<rparr>, out_err = Some e\<rparr>)
   \<and> (validate env p db dest = None \<and> setup_paginator env p db dest = Inr (p', None)
      \<and> DecodeCursor env p' dest = Inr (flds, Some e) \<longrightarrow>
      Paginate env p db dest =
        Inr \<lparr>out_paginator = p', out_dest = dest, out_result = None,
             out_cursor = \<lparr>After = None, Before = None\<rparr>, out_err = Some e\<rparr>)
   \<and> (validate env p db dest = None \<and> setup_paginator env p db dest = Inr (p', None)
      \<and> DecodeCursor env p' dest = Inr (flds, None)
      \<and> Find env (AppendPagingQuery p' db flds) dest = (res, dest') \<and> Error res = Some e \<longrightarrow>
      Paginate env p db dest =
        Inr \<lparr>out_paginator = p', out_dest = dest', out_result = Some res,
             out_cursor = \<lparr>After = None, Before = None\<rparr>, out_err = None\<rparr>)
   \<and> (validate env p db dest = None \<and> setup_paginator env p db dest = Inr (p', None)
      \<and> DecodeCursor env p' dest = Inr (flds, None)
      \<and> Find env (AppendPagingQuery p' db flds) dest = (res, RowSlice rows)
      \<and> Error res = None \<and> rows \<noteq> []
      \<and> EncodeCursor env p' (spec_page (direction_of p) (sint (limit p)) rows)
            (int (length rows) > sint (limit p)) = Inr (c, Some e) \<longrightarrow>
      Paginate env p db dest =
        Inr \<lparr>out_paginator = p',
             out_dest = RowSlice (spec_page (direction_of p) (sint (limit p)) rows),
             out_result = Some res,
             out_cursor = \<lparr>After = None, Before = None\<rparr>, out_err = Some e\<rparr>)"
proof -
  have early: "Paginate env p db dest =
        Inr \<lparr>out_paginator = p, out_dest = dest, out_result = None,
             out_cursor = \<lparr>After = None, Before = None\<rparr>, out_err = Some e\<rparr>"
    if "validate env p db dest = Some e"
    using that by (simp add: Paginate_def)
  have resolve: "Paginate env p db dest =
        Inr \<lparr>out_paginator = p', out_dest = dest, out_result = None,
             out_cursor = \<lparr>After = None, Before = None\<rparr>, out_err = Some e\<rparr>"
    if "validate env p db dest = None" and "setup_paginator env p db dest = Inr (p', Some e)"
    using that by (simp add: Paginate_def)
  have decode: "Paginate env p db dest =
        Inr \<lparr>out_paginator = p', out_dest = dest, out_result = None,
             out_cursor = \<lparr>After = None, Before = None\<rparr>, out_err = Some e\<rparr>"
    if "validate env p db dest = None" and "setup_paginator env p db dest = Inr (p', None)"
      and "DecodeCursor env p' dest = Inr (flds, Some e)"
    using that by (simp add: Paginate_def)
  have query: "Paginate env p db dest =
        Inr \<lparr>out_paginator = p', out_dest = dest', out_result = Some res,
             out_cursor = \<lparr>After = None, Before = None\<rparr>, out_err = None\<rparr>"
    if "validate env p db dest = None" and "setup_paginator env p db dest = Inr (p', None)"
      and "DecodeCursor env p' dest = Inr (flds, None)"
      and "Find env (AppendPagingQuery p' db flds) dest = (res, dest')" and "Error res = Some e"
    using that by (simp add: Paginate_def)
  have encode: "Paginate env p db dest =
        Inr \<lparr>out_paginator = p',
             out_dest = RowSlice (spec_page (direction_of p) (sint (limit p)) rows),
             out_result = Some res,
             out_cursor = \<lparr>After = None, Before = None\<rparr>, out_err = Some e\<rparr>"
    if v: "validate env p db dest = None" and s: "setup_paginator env p db dest = Inr (p', None)"
      and d: "DecodeCursor env p' dest = Inr (flds, None)"
      and f: "Find env (AppendPagingQuery p' db flds) dest = (res, RowSlice rows)"
      and ok: "Error res = None" and ne: "rows \<noteq> []"
      and enc: "EncodeCursor env p' (spec_page (direction_of p) (sint (limit p)) rows)
            (int (length rows) > sint (limit p)) = Inr (c, Some e)"
    using Paginate_page [OF v s d f ok ne] EncodeCursor_error_empty [OF enc]
    by (simp add: enc)
  from early resolve decode query encode show ?thesis by blast
qed

theorem Paginate_failures_witness:
  "Paginate ex_env ((ex_paginator no_cursor)\<lparr>rules := [], limit := 0\<rparr>) ex_db ex_dest =
     Inr \<lparr>out_paginator = (ex_paginator no_cursor)\<lparr>rules := [], limit := 0\<rparr>,
          out_dest = ex_dest, out_result = None,
          out_cursor = \<lparr>After = None, Before = None\<rparr>, out_err = Some ErrNoRule\<rparr>
   \<and> Paginate ex_env_noschema (ex_paginator no_cursor) ex_db ex_dest =
     Inr \<lparr>out_paginator = ex_paginator no_cursor, out_dest = ex_dest, out_result = None,
          out_cursor = \<lparr>After = None, Before = None\<rparr>,
          out_err = Some (ErrOther ''unsupported data type'')\<rparr>
   \<and> Paginate ex_env (ex_paginator after_bad) ex_db ex_dest =
     Inr \<lparr>out_paginator = ex_resolved after_bad, out_dest = ex_dest, out_result = None,
          out_cursor = \<lparr>After = None, Before = None\<rparr>, out_err = Some ErrInvalidCursor\<rparr>
   \<and> Paginate ex_env_failing (ex_paginator no_cursor) ex_db ex_dest =
     Inr \<lparr>out_paginator = ex_resolved no_cursor, out_dest = ex_dest,
          out_result = Some ((AppendPagingQuery (ex_resolved no_cursor) ex_db [])
                               \<lparr>Error := Some (ErrOther ''connection refused'')\<rparr>),
          out_cursor = \<lparr>After = None, Before = None\<rparr>, out_err = None\<rparr>
   \<and> Paginate ex_env_badrow (ex_paginator after_t) ex_db ex_dest =
     Inr \<lparr>out_paginator = ex_resolved after_t, out_dest = RowSlice [''bad''],
          out_result = Some (AppendPagingQuery (ex_resolved after_t) ex_db ex_fields),
          out_cursor = \<lparr>After = None, Before = None\<rparr>,
          out_err = Some (ErrOther ''unsupported type'')\<rparr>"
proof -
  have env: "ex_env = ex_env\<lparr>Find := Find ex_env\<rparr>"
    by simp
  have validation:
    "Paginate ex_env ((ex_paginator no_cursor)\<lparr>rules := [], limit := 0\<rparr>) ex_db ex_dest =
     Inr \<lparr>out_paginator = (ex_paginator no_cursor)\<lparr>rules := [], limit := 0\<rparr>,
          out_dest = ex_dest, out_result = None,
          out_cursor = \<lparr>After = None, Before = None\<rparr>, out_err = Some ErrNoRule\<rparr>"
    using Paginate_failures [where env = ex_env and db = ex_db and dest = ex_dest
        and p = "(ex_paginator no_cursor)\<lparr>rules := [], limit := 0\<rparr>" and e = ErrNoRule]
    by (simp add: validate_def)
  have resolution: "Paginate ex_env_noschema (ex_paginator no_cursor) ex_db ex_dest =
     Inr \<lparr>out_paginator = ex_paginator no_cursor, out_dest = ex_dest, out_result = None,
          out_cursor = \<lparr>After = None, Before = None\<rparr>,
          out_err = Some (ErrOther ''unsupported data type'')\<rparr>"
    using Paginate_failures [where env = ex_env_noschema and db = ex_db and dest = ex_dest
        and p = "ex_paginator no_cursor" and p' = "ex_paginator no_cursor"
        and e = "ErrOther ''unsupported data type''"]
    by (simp add: ex_noschema_validate ex_noschema_setup)
  have decoding: "Paginate ex_env (ex_paginator after_bad) ex_db ex_dest =
     Inr \<lparr>out_paginator = ex_resolved after_bad, out_dest = ex_dest, out_result = None,
          out_cursor = \<lparr>After = None, Before = None\<rparr>, out_err = Some ErrInvalidCursor\<rparr>"
    using Paginate_failures [where env = ex_env and db = ex_db and dest = ex_dest
        and p = "ex_paginator after_bad" and p' = "ex_resolved after_bad"
        and flds = "[]" and e = ErrInvalidCursor]
      ex_validate [of "Find ex_env" after_bad] ex_setup [of "Find ex_env" after_bad]
      ex_decode_bad [of "Find ex_env"]
    by simp
  have query: "Paginate ex_env_failing (ex_paginator no_cursor) ex_db ex_dest =
     Inr \<lparr>out_paginator = ex_resolved no_cursor, out_dest = ex_dest,
          out_result = Some ((AppendPagingQuery (ex_resolved no_cursor) ex_db [])
                               \<lparr>Error := Some (ErrOther ''connection refused'')\<rparr>),
          out_cursor = \<lparr>After = None, Before = None\<rparr>, out_err = None\<rparr>"
    using Paginate_failures [where env = ex_env_failing and db = ex_db and dest = ex_dest
        and p = "ex_paginator no_cursor" and p' = "ex_resolved no_cursor" and flds = "[]"
        and res = "(AppendPagingQuery (ex_resolved no_cursor) ex_db [])
                     \<lparr>Error := Some (ErrOther ''connection refused'')\<rparr>"
        and dest' = ex_dest and e = "ErrOther ''connection refused''"]
    by (simp add: ex_failing_query)
      (simp add: ex_env_failing_def ex_validate ex_setup ex_decode_first_page)
  have page: "spec_page (direction_of (ex_paginator after_t))
      (sint (limit (ex_paginator after_t))) [''bad''] = [''bad'']"
    by (simp add: spec_page_def spec_trim_def ex_defs)
  have more: "\<not> int (length [''bad'']) > sint (limit (ex_paginator after_t))"
    by (simp add: ex_defs)
  have v: "validate ex_env_badrow (ex_paginator after_t) ex_db ex_dest = None"
    by (simp add: ex_env_badrow_def ex_validate)
  have s: "setup_paginator ex_env_badrow (ex_paginator after_t) ex_db ex_dest =
      Inr (ex_resolved after_t, None)"
    by (simp add: ex_env_badrow_def ex_setup)
  have d: "DecodeCursor ex_env_badrow (ex_resolved after_t) ex_dest = Inr (ex_fields, None)"
    by (simp add: ex_env_badrow_def ex_decode_after)
  have f: "Find ex_env_badrow (AppendPagingQuery (ex_resolved after_t) ex_db ex_fields) ex_dest =
      (AppendPagingQuery (ex_resolved after_t) ex_db ex_fields, RowSlice [''bad''])"
    by (simp add: ex_env_badrow_def)
  have ok: "Error (AppendPagingQuery (ex_resolved after_t) ex_db ex_fields) = None"
    by (simp add: AppendPagingQuery_def Let_def ex_db_def)
  have encoding: "Paginate ex_env_badrow (ex_paginator after_t) ex_db ex_dest =
     Inr \<lparr>out_paginator = ex_resolved after_t, out_dest = RowSlice [''bad''],
          out_result = Some (AppendPagingQuery (ex_resolved after_t) ex_db ex_fields),
          out_cursor = \<lparr>After = None, Before = None\<rparr>,
          out_err = Some (ErrOther ''unsupported type'')\<rparr>"
    using Paginate_failures [where env = ex_env_badrow and db = ex_db and dest = ex_dest
        and p = "ex_paginator after_t" and p' = "ex_resolved after_t" and flds = ex_fields
        and res = "AppendPagingQuery (ex_resolved after_t) ex_db ex_fields"
        and dest' = "RowSlice [''bad'']"
        and rows = "[''bad'']" and c = "\<lparr>After = None, Before = None\<rparr>"
        and e = "ErrOther ''unsupported type''"]
    by (simp only: v s d f ok page more ex_encode_bad) simp
  from validation resolution decoding query encoding show ?thesis by simp
qed

text \<open>
  C9, as the claim has it, fails: the query of the example fails with
  \<open>connection refused\<close>, and the error value \<^verbatim>\<open>Paginate\<close> returns is nil.
\<close>

theorem Paginate_query_failure_counterexample:
  "Error (fst (Find ex_env_failing (AppendPagingQuery (ex_resolved no_cursor) ex_db []) ex_dest)) =
     Some (ErrOther ''connection refused'')
   \<and> out_err (projr (Paginate ex_env_failing (ex_paginator no_cursor) ex_db ex_dest)) = None
   \<and> Paginate ex_env_failing (ex_paginator no_cursor) ex_db ex_dest =
     Inr \<lparr>out_paginator = ex_resolved no_cursor, out_dest = ex_dest,
          out_result = Some ((AppendPagingQuery (ex_resolved no_cursor) ex_db [])
                               \<lparr>Error := Some (ErrOther ''connection refused'')\<rparr>),
          out_cursor = \<lparr>After = None, Before = None\<rparr>, out_err = None\<rparr>"
  by (simp add: Paginate_def ex_failing_query)
    (simp add: ex_env_failing_def ex_validate ex_setup ex_decode_first_page)

end
